theory Spec2Isabelle
  imports Complex_Main "HOL-Library.Char_ord" "HOL-Library.List_Lexorder"
begin

section \<open>Data model\<close>

text \<open>
  The application keeps four JSON files, each a JSON object that maps a user name to
  the list of that user's records. A record is a Python dict with a fixed set of keys,
  written by exactly one form (\<^verbatim>\<open>sales.py\<close>, \<^verbatim>\<open>inventory.py\<close>, \<^verbatim>\<open>orders.py\<close>,
  \<^verbatim>\<open>debts.py\<close>); each kind of dict is a HOL record whose fields are the dict's keys,
  prefixed by the kind (\<open>s_\<close>, \<open>i_\<close>, \<open>o_\<close>, \<open>d_\<close>) because several kinds share key names.

  Numbers: Python's \<^verbatim>\<open>int\<close> is \<open>int\<close>; amounts, prices and every value derived from them
  are Python/numpy floats in the source and exact rationals (\<open>rat\<close>) here, so the
  constants \<^verbatim>\<open>0.3\<close>, \<^verbatim>\<open>1.2\<close> and \<^verbatim>\<open>0.8\<close> are \<open>3/10\<close>, \<open>6/5\<close> and \<open>4/5\<close>.
  A calendar date (stored as the string \<^verbatim>\<open>str(date)\<close> and read back by
  \<^verbatim>\<open>pd.to_datetime\<close>) is its day number, an \<open>int\<close>; only the order of dates matters.
\<close>

type_synonym date = int

record sale =
  s_id :: int
  s_product :: string
  s_quantity :: int
  s_unit_price :: rat
  s_total_amount :: rat
  s_cost :: rat
  s_profit :: rat
  s_customer :: string
  s_date :: date

record inventory_item =
  i_id :: int
  i_name :: string
  i_quantity :: int
  i_unit_price :: rat
  i_category :: string
  i_reorder_level :: int
  i_supplier :: string
  i_notes :: string
  i_added_date :: date

record order_rec =
  o_id :: int
  o_description :: string
  o_amount :: rat
  o_customer :: string
  o_status :: string
  o_order_date :: date
  o_due_date :: date
  o_notes :: string

record debt =
  d_id :: int
  d_debtor :: string
  d_amount :: rat
  d_type :: string
  d_status :: string
  d_debt_date :: date
  d_due_date :: date
  d_notes :: string

text \<open>A stored record is a dict of one of the four kinds.\<close>

datatype row = Sale sale | Item inventory_item | Order order_rec | Debt debt

text \<open>
  \<^verbatim>\<open>sales.py\<close>, \<^verbatim>\<open>add_sale_form\<close>, lines 41-66: the dict the sale form appends, from the
  form's inputs and the number \<open>n\<close> of sales already stored
  (\<^verbatim>\<open>len(get_user_data(username, 'sales'))\<close>).
\<close>

definition sale_data :: "nat \<Rightarrow> string \<Rightarrow> int \<Rightarrow> rat \<Rightarrow> rat \<Rightarrow> date \<Rightarrow> string \<Rightarrow> sale" where
  "sale_data n product quantity unit_price cost_per_unit sale_date customer_name =
     (let total_amount = of_int quantity * unit_price;
          total_cost = of_int quantity * cost_per_unit;
          profit = total_amount - total_cost
      in \<lparr>s_id = int n + 1,
          s_product = product,
          s_quantity = quantity,
          s_unit_price = unit_price,
          s_total_amount = total_amount,
          s_cost = total_cost,
          s_profit = profit,
          s_customer = (if customer_name \<noteq> [] then customer_name else ''N/A''),
          s_date = sale_date\<rparr>)"

text \<open>
  \<^verbatim>\<open>inventory.py\<close>, \<^verbatim>\<open>add_inventory_form\<close>, lines 51-61: the dict the inventory form
  appends. The form's \<^verbatim>\<open>reorder_level\<close> input defaults to 10.
\<close>

definition inventory_data ::
    "nat \<Rightarrow> string \<Rightarrow> int \<Rightarrow> rat \<Rightarrow> string \<Rightarrow> int \<Rightarrow> string \<Rightarrow> string \<Rightarrow> date \<Rightarrow> inventory_item" where
  "inventory_data n item_name quantity unit_price category reorder_level supplier notes today =
     \<lparr>i_id = int n + 1,
      i_name = item_name,
      i_quantity = quantity,
      i_unit_price = unit_price,
      i_category = category,
      i_reorder_level = reorder_level,
      i_supplier = (if supplier \<noteq> [] then supplier else ''N/A''),
      i_notes = (if notes \<noteq> [] then notes else []),
      i_added_date = today\<rparr>"

section \<open>\<^verbatim>\<open>config.py\<close>\<close>

definition SALES_FILE :: string where "SALES_FILE = ''data/sales.json''"
definition INVENTORY_FILE :: string where "INVENTORY_FILE = ''data/inventory.json''"
definition ORDERS_FILE :: string where "ORDERS_FILE = ''data/orders.json''"
definition DEBTS_FILE :: string where "DEBTS_FILE = ''data/debts.json''"

definition LOW_PROFIT_MARGIN_THRESHOLD :: rat where "LOW_PROFIT_MARGIN_THRESHOLD = 20"
definition HIGH_PROFIT_MARGIN_THRESHOLD :: rat where "HIGH_PROFIT_MARGIN_THRESHOLD = 40"
definition DEBT_WARNING_RATIO :: rat where "DEBT_WARNING_RATIO = 3 / 10"
definition LOW_STOCK_THRESHOLD :: int where "LOW_STOCK_THRESHOLD = 10"
definition SALES_GROWTH_THRESHOLD :: rat where "SALES_GROWTH_THRESHOLD = 6 / 5"
definition SALES_DECLINE_THRESHOLD :: rat where "SALES_DECLINE_THRESHOLD = 4 / 5"

section \<open>\<^verbatim>\<open>data_manager.py\<close>\<close>

text \<open>
  The persisted store is the file system: a partial map from a path to the JSON object
  in that file (\<open>None\<close>: the file does not exist). A JSON object is a partial map
  from user name to the user's list. Functions that write return the new file system
  next to their Python result.
\<close>

type_synonym json_object = "string \<rightharpoonup> row list"
type_synonym filesystem = "string \<rightharpoonup> json_object"

definition load_json :: "filesystem \<Rightarrow> string \<Rightarrow> json_object" where
  "load_json fs filepath = (case fs filepath of Some data \<Rightarrow> data | None \<Rightarrow> Map.empty)"

definition save_json :: "filesystem \<Rightarrow> string \<Rightarrow> json_object \<Rightarrow> filesystem" where
  "save_json fs filepath data = fs(filepath \<mapsto> data)"

text \<open>
  The dict \<^verbatim>\<open>file_map\<close>, which \<^verbatim>\<open>get_user_data\<close>, \<^verbatim>\<open>save_user_data\<close> and
  \<^verbatim>\<open>update_user_data\<close> each build with the same four entries.
\<close>

definition file_map :: "string \<rightharpoonup> string" where
  "file_map =
     [''sales'' \<mapsto> SALES_FILE,
      ''inventory'' \<mapsto> INVENTORY_FILE,
      ''orders'' \<mapsto> ORDERS_FILE,
      ''debts'' \<mapsto> DEBTS_FILE]"

definition get_user_data :: "filesystem \<Rightarrow> string \<Rightarrow> string \<Rightarrow> row list" where
  "get_user_data fs username data_type =
     (case file_map data_type of
        None \<Rightarrow> []
      | Some filepath \<Rightarrow>
          (let data = load_json fs filepath
           in case data username of Some rows \<Rightarrow> rows | None \<Rightarrow> []))"

definition save_user_data :: "filesystem \<Rightarrow> string \<Rightarrow> string \<Rightarrow> row \<Rightarrow> bool \<times> filesystem" where
  "save_user_data fs username data_type new_data =
     (case file_map data_type of
        None \<Rightarrow> (False, fs)
      | Some filepath \<Rightarrow>
          (let all_data = load_json fs filepath;
               all_data1 = (if all_data username = None then all_data(username \<mapsto> []) else all_data);
               rows = (case all_data1 username of Some rs \<Rightarrow> rs | None \<Rightarrow> []);
               all_data2 = all_data1(username \<mapsto> rows @ [new_data])
           in (True, save_json fs filepath all_data2)))"

definition update_user_data :: "filesystem \<Rightarrow> string \<Rightarrow> string \<Rightarrow> row list \<Rightarrow> bool \<times> filesystem" where
  "update_user_data fs username data_type updated_list =
     (case file_map data_type of
        None \<Rightarrow> (False, fs)
      | Some filepath \<Rightarrow>
          (let all_data = load_json fs filepath;
               all_data1 = all_data(username \<mapsto> updated_list)
           in (True, save_json fs filepath all_data1)))"

section \<open>Python and pandas operations used by \<^verbatim>\<open>analytics.py\<close>\<close>

text \<open>
  A failed dict lookup raises \<^verbatim>\<open>KeyError\<close>, and a number read where the dict holds a
  data frame raises \<^verbatim>\<open>TypeError\<close>. A function that can raise returns
  \<open>py_error + 'a\<close>, \<open>Inl\<close> being the exception.
\<close>

datatype py_error = KeyError string | TypeError

definition bind :: "py_error + 'a \<Rightarrow> ('a \<Rightarrow> py_error + 'b) \<Rightarrow> py_error + 'b" where
  "bind m f = (case m of Inl e \<Rightarrow> Inl e | Inr x \<Rightarrow> f x)"

text \<open>
  The values of the metrics dict: a number, an integer count, or the sales data frame.
  The dict itself is the list of its items in the order of the dict literal.
\<close>

datatype pyval = Number rat | Integer int | DataFrame "sale list"

type_synonym metrics = "(string \<times> pyval) list"

definition num_item :: "metrics \<Rightarrow> string \<Rightarrow> py_error + rat" where
  "num_item d k =
     (case map_of d k of
        None \<Rightarrow> Inl (KeyError k)
      | Some (Number x) \<Rightarrow> Inr x
      | Some (Integer n) \<Rightarrow> Inr (of_int n)
      | Some (DataFrame df) \<Rightarrow> Inl TypeError)"

definition frame_item :: "metrics \<Rightarrow> string \<Rightarrow> py_error + sale list" where
  "frame_item d k =
     (case map_of d k of
        None \<Rightarrow> Inl (KeyError k)
      | Some (DataFrame df) \<Rightarrow> Inr df
      | Some (Number x) \<Rightarrow> Inl TypeError
      | Some (Integer n) \<Rightarrow> Inl TypeError)"

text \<open>
  Reading a user's list at the kind of record its file holds: \<^verbatim>\<open>pd.DataFrame(sales)\<close>
  and the comprehensions \<^verbatim>\<open>for item in inventory\<close>, \<^verbatim>\<open>for order in orders\<close>,
  \<^verbatim>\<open>for debt in debts\<close>. A data frame is the list of its rows in stored order.
\<close>

definition sale_rows :: "row list \<Rightarrow> sale list" where
  "sale_rows rs = [s. Sale s \<leftarrow> rs]"

definition item_rows :: "row list \<Rightarrow> inventory_item list" where
  "item_rows rs = [i. Item i \<leftarrow> rs]"

definition order_rows :: "row list \<Rightarrow> order_rec list" where
  "order_rows rs = [ord. Order ord \<leftarrow> rs]"

definition debt_rows :: "row list \<Rightarrow> debt list" where
  "debt_rows rs = [d. Debt d \<leftarrow> rs]"

text \<open>
  \<^verbatim>\<open>df.tail(n)\<close> and \<^verbatim>\<open>df.head(n)\<close>: the last and the first \<open>n\<close> rows, all rows when
  there are fewer. \<^verbatim>\<open>Series.mean()\<close> is only reached with at least 7 rows.
\<close>

definition tail :: "nat \<Rightarrow> 'a list \<Rightarrow> 'a list" where
  "tail n df = drop (length df - n) df"

definition head :: "nat \<Rightarrow> 'a list \<Rightarrow> 'a list" where
  "head n df = take n df"

definition mean :: "rat list \<Rightarrow> rat" where
  "mean xs = sum_list xs / of_nat (length xs)"

text \<open>
  \<^verbatim>\<open>df.groupby(key)[col].sum()\<close>: one entry per distinct key, keys in ascending order,
  with the sum of the column over the key's rows.
  \<^verbatim>\<open>.sort_values(ascending=False)\<close>: descending by value; entries with equal values
  keep their order here (pandas leaves the order of ties to the sorting algorithm).
\<close>

definition groupby_sum :: "('a \<Rightarrow> string) \<Rightarrow> ('a \<Rightarrow> int) \<Rightarrow> 'a list \<Rightarrow> (string \<times> int) list" where
  "groupby_sum key col df =
     [(k, sum_list [col r. r \<leftarrow> df, key r = k]). k \<leftarrow> sort (remdups (map key df))]"

definition sort_values_desc :: "(string \<times> int) list \<Rightarrow> (string \<times> int) list" where
  "sort_values_desc series = sort_key (\<lambda>(k, v). - v) series"

definition nunique :: "string list \<Rightarrow> nat" where
  "nunique col = length (remdups col)"

text \<open>\<^verbatim>\<open>str(n)\<close> for an integer, and \<^verbatim>\<open>sep.join(xs)\<close>.\<close>

definition digit_char :: "nat \<Rightarrow> char" where
  "digit_char d =
     (if d = 0 then CHR ''0'' else if d = 1 then CHR ''1'' else if d = 2 then CHR ''2''
      else if d = 3 then CHR ''3'' else if d = 4 then CHR ''4'' else if d = 5 then CHR ''5''
      else if d = 6 then CHR ''6'' else if d = 7 then CHR ''7'' else if d = 8 then CHR ''8''
      else CHR ''9'')"

fun str_nat :: "nat \<Rightarrow> string" where
  "str_nat n = (if n < 10 then [digit_char n] else str_nat (n div 10) @ [digit_char (n mod 10)])"

definition str_int :: "int \<Rightarrow> string" where
  "str_int n = (if n < 0 then ''-'' @ str_nat (nat (- n)) else str_nat (nat n))"

fun join :: "string \<Rightarrow> string list \<Rightarrow> string" where
  "join sep [] = []"
| "join sep [x] = x"
| "join sep (x # y # ys) = x @ sep @ join sep (y # ys)"

text \<open>
  A float as numpy computes it where the source divides: a finite value, or the result
  of dividing by zero (numpy returns \<^verbatim>\<open>inf\<close>, \<^verbatim>\<open>-inf\<close> or \<^verbatim>\<open>nan\<close> and does not raise).
\<close>

datatype npfloat = Finite rat | PosInf | NegInf | NaN

definition np_div :: "rat \<Rightarrow> rat \<Rightarrow> npfloat" where
  "np_div a b =
     (if b \<noteq> 0 then Finite (a / b)
      else if a > 0 then PosInf else if a < 0 then NegInf else NaN)"

text \<open>
  An f-string is the list of its pieces: literal text and \<^verbatim>\<open>str\<close> conversions are text;
  a float formatted with \<^verbatim>\<open>:.1f\<close> or \<^verbatim>\<open>:,.2f\<close> is kept as the number and its format,
  since the digits printed depend on the binary float.
\<close>

datatype piece = Text string | Fixed1 npfloat | Grouped2 npfloat

record insight =
  type :: string
  title :: string
  message :: "piece list"

section \<open>\<^verbatim>\<open>analytics.py\<close>\<close>

text \<open>
  \<^verbatim>\<open>calculate_metrics\<close>, lines 17-54. The result \<open>None\<close> is Python's \<^verbatim>\<open>None\<close>. Line 28
  parses the \<^verbatim>\<open>date\<close> column in place and changes neither the rows nor their order.
\<close>

definition calculate_metrics :: "filesystem \<Rightarrow> string \<Rightarrow> metrics option" where
  "calculate_metrics fs username =
     (let sales = get_user_data fs username ''sales'';
          inventory = get_user_data fs username ''inventory'';
          orders = get_user_data fs username ''orders'';
          debts = get_user_data fs username ''debts''
      in if sales = [] then None
         else
           (let sales_df = sale_rows sales;
                total_revenue = sum_list (map s_total_amount sales_df);
                total_cost = sum_list (map s_cost sales_df);
                total_profit = total_revenue - total_cost;
                profit_margin =
                  (if total_revenue > 0 then total_profit / total_revenue * 100 else 0);
                inventory_value =
                  sum_list [of_int (i_quantity item) * i_unit_price item. item \<leftarrow> item_rows inventory];
                pending_orders_value =
                  sum_list [o_amount ord. ord \<leftarrow> order_rows orders, o_status ord = ''Pending''];
                total_debts =
                  sum_list [d_amount debt. debt \<leftarrow> debt_rows debts, d_status debt = ''Pending'']
            in Some
                 [(''total_revenue'', Number total_revenue),
                  (''total_profit'', Number total_profit),
                  (''profit_margin'', Number profit_margin),
                  (''inventory_value'', Number inventory_value),
                  (''pending_orders'', Number pending_orders_value),
                  (''total_debts'', Number total_debts),
                  (''sales_df'', DataFrame sales_df),
                  (''total_sales_count'', Integer (int (length sales)))]))"

text \<open>
  The titles of the insights, lines 73-136. Each starts with an emoji, written here as
  the bytes of its UTF-8 encoding.
\<close>

definition TOP_PERFORMER :: string where
  "TOP_PERFORMER = [CHR 0xF0, CHR 0x9F, CHR 0x8F, CHR 0x86] @ '' Top Performer''"

definition LOW_PROFIT_MARGIN :: string where
  "LOW_PROFIT_MARGIN =
     [CHR 0xE2, CHR 0x9A, CHR 0xA0, CHR 0xEF, CHR 0xB8, CHR 0x8F] @ '' Low Profit Margin''"

definition EXCELLENT_MARGINS :: string where
  "EXCELLENT_MARGINS = [CHR 0xF0, CHR 0x9F, CHR 0x92, CHR 0xB0] @ '' Excellent Margins''"

definition GROWTH_TREND :: string where
  "GROWTH_TREND = [CHR 0xF0, CHR 0x9F, CHR 0x93, CHR 0x88] @ '' Growth Trend''"

definition DECLINING_SALES :: string where
  "DECLINING_SALES = [CHR 0xF0, CHR 0x9F, CHR 0x93, CHR 0x89] @ '' Declining Sales''"

definition HIGH_DEBT_ALERT :: string where
  "HIGH_DEBT_ALERT = [CHR 0xF0, CHR 0x9F, CHR 0x92, CHR 0xB3] @ '' High Debt Alert''"

definition LOW_STOCK_ALERT :: string where
  "LOW_STOCK_ALERT = [CHR 0xF0, CHR 0x9F, CHR 0x93, CHR 0xA6] @ '' Low Stock Alert''"

definition PRODUCT_DIVERSITY :: string where
  "PRODUCT_DIVERSITY = [CHR 0xF0, CHR 0x9F, CHR 0x8E, CHR 0xAF] @ '' Product Diversity''"

text \<open>
  The body of \<^verbatim>\<open>generate_insights\<close> appends to \<^verbatim>\<open>insights\<close> in six blocks, which the
  source numbers in its comments. Each block is a function that returns what it appends
  (at most one insight), from the values the block reads.
\<close>

text \<open>Insight 1: best selling products, lines 65-75.\<close>

definition insight_best_selling :: "sale list \<Rightarrow> insight list" where
  "insight_best_selling sales_df =
     (if sales_df \<noteq> [] then
        (let product_sales = sort_values_desc (groupby_sum s_product s_quantity sales_df)
         in case product_sales of
              [] \<Rightarrow> []
            | (top_product, top_quantity) # rest \<Rightarrow>
                [\<lparr>type = ''success'',
                  title = TOP_PERFORMER,
                  message =
                    [Text [CHR 0x27], Text top_product,
                     Text ([CHR 0x27] @ '' is your best-seller with ''),
                     Text (str_int top_quantity), Text '' units sold!'']\<rparr>])
      else [])"

text \<open>Insight 2: profit margin analysis, lines 77-89.\<close>

definition insight_profit_margin :: "rat \<Rightarrow> insight list" where
  "insight_profit_margin profit_margin =
     (if profit_margin < LOW_PROFIT_MARGIN_THRESHOLD then
        [\<lparr>type = ''warning'',
          title = LOW_PROFIT_MARGIN,
          message =
            [Text ''Your profit margin is '', Fixed1 (Finite profit_margin),
             Text ''%. Consider reviewing pricing or reducing costs.'']\<rparr>]
      else if profit_margin > HIGH_PROFIT_MARGIN_THRESHOLD then
        [\<lparr>type = ''success'',
          title = EXCELLENT_MARGINS,
          message =
            [Text ''Outstanding profit margin of '', Fixed1 (Finite profit_margin),
             Text ''%! Keep up the good work.'']\<rparr>]
      else [])"

text \<open>
  Insight 3: sales trends, lines 91-108. \<^verbatim>\<open>growth_pct\<close> divides two numpy floats, so
  a zero \<^verbatim>\<open>older_sales\<close> gives an infinite percentage and no exception.
\<close>

definition growth_pct_of :: "rat \<Rightarrow> rat \<Rightarrow> npfloat" where
  "growth_pct_of recent_sales older_sales =
     (case np_div recent_sales older_sales of
        Finite q \<Rightarrow> Finite ((q - 1) * 100)
      | PosInf \<Rightarrow> PosInf
      | NegInf \<Rightarrow> NegInf
      | NaN \<Rightarrow> NaN)"

definition insight_sales_trends :: "sale list \<Rightarrow> insight list" where
  "insight_sales_trends sales_df =
     (if length sales_df > 7 then
        (let recent_sales = mean (map s_total_amount (tail 7 sales_df));
             older_sales = mean (map s_total_amount (head 7 sales_df))
         in if recent_sales > older_sales * SALES_GROWTH_THRESHOLD then
              (let growth_pct = growth_pct_of recent_sales older_sales
               in [\<lparr>type = ''success'',
                     title = GROWTH_TREND,
                     message =
                       [Text ''Sales are trending up! Recent average is '', Fixed1 growth_pct,
                        Text ''% higher.'']\<rparr>])
            else if recent_sales < older_sales * SALES_DECLINE_THRESHOLD then
              [\<lparr>type = ''warning'',
                title = DECLINING_SALES,
                message =
                  [Text (''Sales have decreased recently. Consider promotional activities ''
                         @ ''or customer outreach.'')]\<rparr>]
            else [])
      else [])"

text \<open>Insight 4: debt management, lines 110-116.\<close>

definition insight_debt_management :: "rat \<Rightarrow> rat \<Rightarrow> insight list" where
  "insight_debt_management total_debts total_revenue =
     (if total_debts > total_revenue * DEBT_WARNING_RATIO then
        [\<lparr>type = ''error'',
          title = HIGH_DEBT_ALERT,
          message =
            [Text (''Pending debts ('' @ [CHR 0xE2, CHR 0x82, CHR 0xB9]),
             Grouped2 (Finite total_debts),
             Text '') are over 30% of revenue. Prioritize collections.'']\<rparr>]
      else [])"

text \<open>Insight 5: inventory insights, lines 118-128.\<close>

definition insight_inventory :: "row list \<Rightarrow> insight list" where
  "insight_inventory inventory =
     (let low_stock = [item. item \<leftarrow> item_rows inventory, i_quantity item < LOW_STOCK_THRESHOLD]
      in if low_stock \<noteq> [] then
           (let product_names = join '', '' [i_name item. item \<leftarrow> take 3 low_stock];
                more_text =
                  (if length low_stock > 3
                   then '' and '' @ str_int (int (length low_stock) - 3) @ '' more''
                   else [])
            in [\<lparr>type = ''warning'',
                  title = LOW_STOCK_ALERT,
                  message =
                    [Text (str_nat (length low_stock)),
                     Text '' item(s) running low. Restock: '',
                     Text product_names, Text more_text]\<rparr>])
         else [])"

text \<open>Insight 6: product diversity, lines 130-138.\<close>

definition insight_product_diversity :: "sale list \<Rightarrow> insight list" where
  "insight_product_diversity sales_df =
     (if sales_df \<noteq> [] then
        (let unique_products = nunique (map s_product sales_df)
         in if unique_products < 3 then
              [\<lparr>type = ''info'',
                title = PRODUCT_DIVERSITY,
                message =
                  [Text (''You'' @ [CHR 0x27] @ ''re selling ''), Text (str_nat unique_products),
                   Text ('' product(s). Consider expanding your product range to attract ''
                         @ ''more customers.'')]\<rparr>]
            else [])
      else [])"

text \<open>
  \<^verbatim>\<open>generate_insights\<close>, lines 56-140. \<^verbatim>\<open>if not metrics\<close> holds for \<^verbatim>\<open>None\<close> and for an
  empty dict. The lookups in \<^verbatim>\<open>metrics\<close> are made in the order of the source, and the
  first that raises ends the call.
\<close>

definition generate_insights :: "filesystem \<Rightarrow> string \<Rightarrow> py_error + insight list" where
  "generate_insights fs username =
     (case calculate_metrics fs username of
        None \<Rightarrow> Inr []
      | Some metrics \<Rightarrow>
          if metrics = [] then Inr []
          else
            bind (frame_item metrics ''sales_df'') (\<lambda>sales_df.
            bind (num_item metrics ''profit_margin'') (\<lambda>profit_margin.
            bind (num_item metrics ''total_debts'') (\<lambda>total_debts.
            bind (num_item metrics ''total_revenue'') (\<lambda>total_revenue.
              (let inventory = get_user_data fs username ''inventory''
               in Inr (insight_best_selling sales_df
                     @ insight_profit_margin profit_margin
                     @ insight_sales_trends sales_df
                     @ insight_debt_management total_debts total_revenue
                     @ insight_inventory inventory
                     @ insight_product_diversity sales_df)))))))"

text \<open>\<^verbatim>\<open>predict_monthly_revenue\<close>, lines 163-174.\<close>

definition predict_monthly_revenue :: "filesystem \<Rightarrow> string \<Rightarrow> py_error + rat" where
  "predict_monthly_revenue fs username =
     (case calculate_metrics fs username of
        None \<Rightarrow> Inr 0
      | Some metrics \<Rightarrow>
          if metrics = [] then Inr 0
          else
            bind (frame_item metrics ''sales_df'') (\<lambda>sales_df.
              if length sales_df < 7 then Inr 0
              else
                (let recent_avg = mean (map s_total_amount (tail 7 sales_df))
                 in Inr (recent_avg * 30))))"

text \<open>
  \<^verbatim>\<open>inventory.py\<close>, line 138: the inventory page counts an item as low on stock when its
  quantity is below the item's own reorder level.
\<close>

definition low_stock_count :: "row list \<Rightarrow> nat" where
  "low_stock_count inventory =
     length [item. item \<leftarrow> item_rows inventory, i_quantity item < i_reorder_level item]"

section \<open>Vocabulary of the properties\<close>

text \<open>The value stored under a key of the result of \<^verbatim>\<open>calculate_metrics\<close>, if any.\<close>

definition metrics_field :: "metrics option \<Rightarrow> string \<Rightarrow> pyval option" where
  "metrics_field result k = (case result of None \<Rightarrow> None | Some d \<Rightarrow> map_of d k)"

text \<open>The severity and the title of each insight of a list, in order.\<close>

definition labels :: "insight list \<Rightarrow> (string \<times> string) list" where
  "labels ins = map (\<lambda>i. (type i, title i)) ins"

text \<open>
  The reading of "the \<open>n\<close> most recent sales in date order" that sorts the sales by their
  date (stably) and keeps the last \<open>n\<close>.
\<close>

definition spec_most_recent_by_date :: "nat \<Rightarrow> sale list \<Rightarrow> sale list" where
  "spec_most_recent_by_date n sales = tail n (sort_key s_date sales)"

text \<open>
  Names for the values the properties speak of: a user's sales as \<^verbatim>\<open>calculate_metrics\<close>
  reads them, the sums and the margin it computes from them, the sum of the pending debts,
  and the two means the trend rule compares.
\<close>

abbreviation user_sales :: "filesystem \<Rightarrow> string \<Rightarrow> sale list" where
  "user_sales fs username \<equiv> sale_rows (get_user_data fs username ''sales'')"

abbreviation revenue :: "sale list \<Rightarrow> rat" where
  "revenue sales_df \<equiv> sum_list (map s_total_amount sales_df)"

abbreviation cost_sum :: "sale list \<Rightarrow> rat" where
  "cost_sum sales_df \<equiv> sum_list (map s_cost sales_df)"

abbreviation margin :: "sale list \<Rightarrow> rat" where
  "margin sales_df \<equiv>
     (if revenue sales_df > 0
      then (revenue sales_df - cost_sum sales_df) / revenue sales_df * 100 else 0)"

abbreviation pending_debts :: "filesystem \<Rightarrow> string \<Rightarrow> rat" where
  "pending_debts fs username \<equiv>
     sum_list [d_amount debt. debt \<leftarrow> debt_rows (get_user_data fs username ''debts''),
                 d_status debt = ''Pending'']"

abbreviation recent_mean :: "sale list \<Rightarrow> rat" where
  "recent_mean sales_df \<equiv> mean (map s_total_amount (tail 7 sales_df))"

abbreviation older_mean :: "sale list \<Rightarrow> rat" where
  "older_mean sales_df \<equiv> mean (map s_total_amount (head 7 sales_df))"

section \<open>An example store\<close>

text \<open>
  Four users. \<open>asha\<close> has eight sales whose recent mean is exactly 1.2 times the older
  mean, and one inventory item below its own reorder level but not below 10.
  \<open>bela\<close> has eight sales, the last one entered with an earlier date, pending debts
  and four of five inventory items below 10. \<open>chand\<close> has inventory and debts but no
  sales. \<open>dev\<close> has a single return, stored as a sale of negative quantity.
\<close>

definition asha_sales :: "sale list" where
  "asha_sales =
     [sale_data 0 ''tea'' 1 10 8 1 [], sale_data 1 ''tea'' 1 10 8 2 [],
      sale_data 2 ''tea'' 1 10 8 3 [], sale_data 3 ''tea'' 1 10 8 4 [],
      sale_data 4 ''tea'' 1 10 8 5 [], sale_data 5 ''tea'' 1 10 8 6 [],
      sale_data 6 ''tea'' 1 10 8 7 [], sale_data 7 ''tea'' 1 24 8 8 []]"

definition asha_inventory :: "inventory_item list" where
  "asha_inventory = [inventory_data 0 ''rice'' 15 40 ''Food'' 20 [] [] 1]"

definition bela_sales :: "sale list" where
  "bela_sales =
     [sale_data 0 ''tea'' 1 10 9 11 [], sale_data 1 ''tea'' 1 10 9 12 [],
      sale_data 2 ''tea'' 1 10 9 13 [], sale_data 3 ''tea'' 1 10 9 14 [],
      sale_data 4 ''tea'' 1 10 9 15 [], sale_data 5 ''tea'' 1 10 9 16 [],
      sale_data 6 ''tea'' 1 10 9 17 [], sale_data 7 ''tea'' 8 10 9 1 []]"

definition bela_inventory :: "inventory_item list" where
  "bela_inventory =
     [inventory_data 0 ''rice'' 2 40 ''Food'' 10 [] [] 1,
      inventory_data 1 ''salt'' 50 5 ''Food'' 10 [] [] 1,
      inventory_data 2 ''oil'' 0 90 ''Food'' 10 [] [] 1,
      inventory_data 3 ''soap'' 9 20 ''Other'' 10 [] [] 1,
      inventory_data 4 ''dal'' 3 60 ''Food'' 10 [] [] 1]"

definition bela_debts :: "debt list" where
  "bela_debts =
     [\<lparr>d_id = 1, d_debtor = ''kiran'', d_amount = 100, d_type = ''Receivable (They owe you)'',
       d_status = ''Pending'', d_debt_date = 3, d_due_date = 33, d_notes = []\<rparr>,
      \<lparr>d_id = 2, d_debtor = ''mohan'', d_amount = 500, d_type = ''Receivable (They owe you)'',
       d_status = ''Paid'', d_debt_date = 4, d_due_date = 34, d_notes = []\<rparr>]"

definition chand_inventory :: "inventory_item list" where
  "chand_inventory = [inventory_data 0 ''rice'' 2 40 ''Food'' 10 [] [] 1]"

definition chand_debts :: "debt list" where
  "chand_debts =
     [\<lparr>d_id = 1, d_debtor = ''kiran'', d_amount = 100, d_type = ''Receivable (They owe you)'',
       d_status = ''Pending'', d_debt_date = 3, d_due_date = 33, d_notes = []\<rparr>]"

definition dev_sales :: "sale list" where
  "dev_sales = [sale_data 0 ''tea'' (- 1) 10 4 1 []]"

definition example_fs :: filesystem where
  "example_fs =
     [SALES_FILE \<mapsto>
        [''asha'' \<mapsto> map Sale asha_sales, ''bela'' \<mapsto> map Sale bela_sales,
         ''dev'' \<mapsto> map Sale dev_sales],
      INVENTORY_FILE \<mapsto>
        [''asha'' \<mapsto> map Item asha_inventory, ''bela'' \<mapsto> map Item bela_inventory,
         ''chand'' \<mapsto> map Item chand_inventory],
      DEBTS_FILE \<mapsto> [''bela'' \<mapsto> map Debt bela_debts, ''chand'' \<mapsto> map Debt chand_debts]]"

section \<open>Properties of \<^verbatim>\<open>data_manager.py\<close>\<close>

lemma file_map_None_iff:
  "file_map data_type = None \<longleftrightarrow> data_type \<notin> {''sales'', ''inventory'', ''orders'', ''debts''}"
  by (simp add: file_map_def)

text \<open>
  Claim C9. For a \<open>data_type\<close> that is none of \<open>sales\<close>, \<open>inventory\<close>, \<open>orders\<close>,
  \<open>debts\<close>: \<^verbatim>\<open>get_user_data\<close> returns the empty list, and \<^verbatim>\<open>save_user_data\<close> and
  \<^verbatim>\<open>update_user_data\<close> return \<open>False\<close> and leave the whole file system as it was.
\<close>

theorem unknown_data_type_rejected:
  assumes "data_type \<notin> {''sales'', ''inventory'', ''orders'', ''debts''}"
  shows "get_user_data fs username data_type = []
       \<and> save_user_data fs username data_type new_data = (False, fs)
       \<and> update_user_data fs username data_type updated_list = (False, fs)"
proof -
  from assms have "file_map data_type = None"
    by (simp add: file_map_None_iff)
  then show ?thesis
    by (simp add: get_user_data_def save_user_data_def update_user_data_def)
qed

text \<open>\<open>users\<close> is not a data type of the store.\<close>

theorem unknown_data_type_rejected_witness:
  "''users'' \<notin> {''sales'', ''inventory'', ''orders'', ''debts''}
   \<and> get_user_data example_fs ''asha'' ''users'' = []
   \<and> save_user_data example_fs ''asha'' ''users'' (Sale (sale_data 8 ''tea'' 1 10 8 9 []))
       = (False, example_fs)
   \<and> update_user_data example_fs ''asha'' ''users'' [] = (False, example_fs)"
  using unknown_data_type_rejected [of "''users''" example_fs "''asha''"
      "Sale (sale_data 8 ''tea'' 1 10 8 9 [])" "[]"]
  by simp

section \<open>Properties of \<^verbatim>\<open>analytics.py\<close>\<close>

lemmas title_defs = TOP_PERFORMER_def LOW_PROFIT_MARGIN_def EXCELLENT_MARGINS_def GROWTH_TREND_def
  DECLINING_SALES_def HIGH_DEBT_ALERT_def LOW_STOCK_ALERT_def PRODUCT_DIVERSITY_def

lemma concat_map_if:
  "concat (map (\<lambda>x. if P x then [f x] else []) xs) = map f (filter P xs)"
  by (induction xs) simp_all

lemma concat_map_if_id:
  "concat (map (\<lambda>x. if P x then [x] else []) xs) = filter P xs"
  by (induction xs) simp_all

lemma calculate_metrics_empty:
  "get_user_data fs u ''sales'' = [] \<Longrightarrow> calculate_metrics fs u = None"
  by (simp add: calculate_metrics_def)

lemma calculate_metrics_nonempty:
  assumes "get_user_data fs u ''sales'' \<noteq> []"
  shows "calculate_metrics fs u = Some
     [(''total_revenue'', Number (revenue (user_sales fs u))),
      (''total_profit'', Number (revenue (user_sales fs u) - cost_sum (user_sales fs u))),
      (''profit_margin'', Number (margin (user_sales fs u))),
      (''inventory_value'',
         Number (sum_list [of_int (i_quantity item) * i_unit_price item.
                             item \<leftarrow> item_rows (get_user_data fs u ''inventory'')])),
      (''pending_orders'',
         Number (sum_list [o_amount ord. ord \<leftarrow> order_rows (get_user_data fs u ''orders''),
                             o_status ord = ''Pending''])),
      (''total_debts'', Number (pending_debts fs u)),
      (''sales_df'', DataFrame (user_sales fs u)),
      (''total_sales_count'', Integer (int (length (get_user_data fs u ''sales''))))]"
  using assms by (simp add: calculate_metrics_def Let_def)

lemma generate_insights_empty:
  "get_user_data fs u ''sales'' = [] \<Longrightarrow> generate_insights fs u = Inr []"
  by (simp add: generate_insights_def calculate_metrics_empty)

lemma generate_insights_nonempty:
  assumes "get_user_data fs u ''sales'' \<noteq> []"
  shows "generate_insights fs u = Inr
     (insight_best_selling (user_sales fs u)
      @ insight_profit_margin (margin (user_sales fs u))
      @ insight_sales_trends (user_sales fs u)
      @ insight_debt_management (pending_debts fs u) (revenue (user_sales fs u))
      @ insight_inventory (get_user_data fs u ''inventory'')
      @ insight_product_diversity (user_sales fs u))"
  unfolding generate_insights_def calculate_metrics_nonempty [OF assms]
  by (simp add: num_item_def frame_item_def bind_def)

lemma product_sales_nonempty:
  "sales_df \<noteq> [] \<Longrightarrow> sort_values_desc (groupby_sum key col sales_df) \<noteq> []"
proof -
  assume "sales_df \<noteq> []"
  then have "remdups (map key sales_df) \<noteq> []" by simp
  then have "length (groupby_sum key col sales_df) > 0"
    by (simp add: groupby_sum_def)
  then have "length (sort_values_desc (groupby_sum key col sales_df)) > 0"
    by (simp add: sort_values_desc_def)
  then show ?thesis by blast
qed

lemma labels_best_selling:
  "labels (insight_best_selling sales_df) =
     (if sales_df \<noteq> [] then [(''success'', TOP_PERFORMER)] else [])"
proof (cases "sales_df = []")
  case True
  then show ?thesis by (simp add: insight_best_selling_def labels_def)
next
  case False
  then obtain p q rest where "sort_values_desc (groupby_sum s_product s_quantity sales_df) = (p, q) # rest"
    using product_sales_nonempty [of sales_df s_product s_quantity]
    by (metis list.exhaust surj_pair)
  with False show ?thesis by (simp add: insight_best_selling_def labels_def)
qed

lemma labels_profit_margin:
  "labels (insight_profit_margin pm) =
     (if pm < 20 then [(''warning'', LOW_PROFIT_MARGIN)]
      else if pm > 40 then [(''success'', EXCELLENT_MARGINS)] else [])"
  by (simp add: insight_profit_margin_def labels_def LOW_PROFIT_MARGIN_THRESHOLD_def
      HIGH_PROFIT_MARGIN_THRESHOLD_def)

lemma labels_sales_trends:
  "labels (insight_sales_trends sales_df) =
     (if 7 < length sales_df \<and> recent_mean sales_df > older_mean sales_df * (6 / 5)
      then [(''success'', GROWTH_TREND)]
      else if 7 < length sales_df \<and> recent_mean sales_df < older_mean sales_df * (4 / 5)
      then [(''warning'', DECLINING_SALES)]
      else [])"
  by (simp add: insight_sales_trends_def labels_def Let_def
      SALES_GROWTH_THRESHOLD_def SALES_DECLINE_THRESHOLD_def)

lemma labels_debt_management:
  "labels (insight_debt_management total_debts total_revenue) =
     (if total_debts > total_revenue * (3 / 10) then [(''error'', HIGH_DEBT_ALERT)] else [])"
  by (simp add: insight_debt_management_def labels_def DEBT_WARNING_RATIO_def)

lemma labels_inventory:
  "labels (insight_inventory inventory) =
     (if [item \<leftarrow> item_rows inventory. i_quantity item < 10] \<noteq> []
      then [(''warning'', LOW_STOCK_ALERT)] else [])"
  by (simp add: insight_inventory_def labels_def Let_def LOW_STOCK_THRESHOLD_def concat_map_if_id)

lemma labels_product_diversity:
  "labels (insight_product_diversity sales_df) =
     (if sales_df \<noteq> [] \<and> nunique (map s_product sales_df) < 3
      then [(''info'', PRODUCT_DIVERSITY)] else [])"
  by (simp add: insight_product_diversity_def labels_def Let_def)

lemmas labels_blocks = labels_best_selling labels_profit_margin labels_sales_trends
  labels_debt_management labels_inventory labels_product_diversity

lemma labels_append: "labels (xs @ ys) = labels xs @ labels ys"
  by (simp add: labels_def)

lemma mem_if_list:
  "l \<in> set (if c then xs else ys) \<longleftrightarrow> (if c then l \<in> set xs else l \<in> set ys)"
  by simp

lemma filter_if_list:
  "filter P (if c then xs else ys) = (if c then filter P xs else filter P ys)"
  by simp

lemma labels_generate_insights:
  assumes "get_user_data fs u ''sales'' \<noteq> []"
  shows "\<exists>ins. generate_insights fs u = Inr ins \<and> labels ins =
      labels (insight_best_selling (user_sales fs u))
      @ labels (insight_profit_margin (margin (user_sales fs u)))
      @ labels (insight_sales_trends (user_sales fs u))
      @ labels (insight_debt_management (pending_debts fs u) (revenue (user_sales fs u)))
      @ labels (insight_inventory (get_user_data fs u ''inventory''))
      @ labels (insight_product_diversity (user_sales fs u))"
  by (simp add: generate_insights_nonempty [OF assms] labels_append)

text \<open>
  Claim C5. When the user's sales list is empty, \<^verbatim>\<open>calculate_metrics\<close> returns \<^verbatim>\<open>None\<close>
  and \<^verbatim>\<open>generate_insights\<close> returns the empty list, whatever the inventory and the
  debts hold; neither raises.
\<close>

theorem empty_sales_no_data:
  assumes "get_user_data fs username ''sales'' = []"
  shows "calculate_metrics fs username = None \<and> generate_insights fs username = Inr []"
  using assms by (simp add: calculate_metrics_empty generate_insights_empty)

text \<open>
  \<open>chand\<close> has no sales, and an inventory on which the low-stock rule would fire.
\<close>

theorem empty_sales_no_data_witness:
  "get_user_data example_fs ''chand'' ''sales'' = []
   \<and> insight_inventory (get_user_data example_fs ''chand'' ''inventory'') \<noteq> []
   \<and> calculate_metrics example_fs ''chand'' = None
   \<and> generate_insights example_fs ''chand'' = Inr []"
proof -
  have h: "get_user_data example_fs ''chand'' ''sales'' = []" by code_simp
  have i: "insight_inventory (get_user_data example_fs ''chand'' ''inventory'') \<noteq> []"
    by code_simp
  from empty_sales_no_data [OF h] h i show ?thesis by simp
qed


lemma labelled_insights [consumes 1, case_names insights]:
  assumes "get_user_data fs u ''sales'' \<noteq> []"
  obtains ins where "generate_insights fs u = Inr ins"
    and "labels ins =
      labels (insight_best_selling (user_sales fs u))
      @ labels (insight_profit_margin (margin (user_sales fs u)))
      @ labels (insight_sales_trends (user_sales fs u))
      @ labels (insight_debt_management (pending_debts fs u) (revenue (user_sales fs u)))
      @ labels (insight_inventory (get_user_data fs u ''inventory''))
      @ labels (insight_product_diversity (user_sales fs u))"
  using labels_generate_insights [OF assms] by blast

text \<open>
  Claim C8. For a non-empty sales list, the insights contain the low-profit-margin
  warning exactly when the \<^verbatim>\<open>profit_margin\<close> of the metrics is below 20, the
  excellent-margins success exactly when it is above 40, and never both.
\<close>

theorem margin_insights:
  assumes "get_user_data fs username ''sales'' \<noteq> []"
  shows "\<exists>ins profit_margin.
      generate_insights fs username = Inr ins
    \<and> metrics_field (calculate_metrics fs username) ''profit_margin'' = Some (Number profit_margin)
    \<and> ((''warning'', LOW_PROFIT_MARGIN) \<in> set (labels ins) \<longleftrightarrow> profit_margin < 20)
    \<and> ((''success'', EXCELLENT_MARGINS) \<in> set (labels ins) \<longleftrightarrow> profit_margin > 40)
    \<and> \<not> ((''warning'', LOW_PROFIT_MARGIN) \<in> set (labels ins)
          \<and> (''success'', EXCELLENT_MARGINS) \<in> set (labels ins))"
  using assms
proof (cases rule: labelled_insights)
  case (insights ins)
  have pm: "metrics_field (calculate_metrics fs username) ''profit_margin''
      = Some (Number (margin (user_sales fs username)))"
    by (simp add: calculate_metrics_nonempty [OF assms] metrics_field_def)
  have low: "(''warning'', LOW_PROFIT_MARGIN) \<in> set (labels ins)
      \<longleftrightarrow> margin (user_sales fs username) < 20"
    unfolding insights(2) labels_blocks by (simp add: mem_if_list title_defs)
  have high: "(''success'', EXCELLENT_MARGINS) \<in> set (labels ins)
      \<longleftrightarrow> margin (user_sales fs username) > 40"
    unfolding insights(2) labels_blocks by (simp add: mem_if_list title_defs)
  from insights(1) pm low high show ?thesis
    by auto
qed

lemma asha_labels:
  "map_sum id labels (generate_insights example_fs ''asha'')
     = Inr [(''success'', TOP_PERFORMER), (''info'', PRODUCT_DIVERSITY)]"
  by code_simp

lemma bela_labels:
  "map_sum id labels (generate_insights example_fs ''bela'')
     = Inr [(''success'', TOP_PERFORMER), (''warning'', LOW_PROFIT_MARGIN),
            (''success'', GROWTH_TREND), (''error'', HIGH_DEBT_ALERT),
            (''warning'', LOW_STOCK_ALERT), (''info'', PRODUCT_DIVERSITY)]"
  by code_simp

lemma asha_has_sales: "get_user_data example_fs ''asha'' ''sales'' \<noteq> []"
  by code_simp

lemma bela_has_sales: "get_user_data example_fs ''bela'' ''sales'' \<noteq> []"
  by code_simp

text \<open>\<open>bela\<close>'s margin is 10 percent.\<close>

theorem margin_insights_witness:
  "get_user_data example_fs ''bela'' ''sales'' \<noteq> []
   \<and> metrics_field (calculate_metrics example_fs ''bela'') ''profit_margin'' = Some (Number 10)
   \<and> (\<exists>ins. generate_insights example_fs ''bela'' = Inr ins
        \<and> (''warning'', LOW_PROFIT_MARGIN) \<in> set (labels ins)
        \<and> (''success'', EXCELLENT_MARGINS) \<notin> set (labels ins))"
proof -
  have pm: "metrics_field (calculate_metrics example_fs ''bela'') ''profit_margin'' = Some (Number 10)"
    by code_simp
  from margin_insights [OF bela_has_sales] pm bela_has_sales show ?thesis
    by auto
qed







text \<open>
  Claim C3, as the code has it. For a non-empty sales list the dict returned by
  \<^verbatim>\<open>calculate_metrics\<close> has the eight keys of its literal and no key \<^verbatim>\<open>total_cost\<close>:
  the sum of the \<^verbatim>\<open>cost\<close> column is a local value, which the result shows only as
  \<^verbatim>\<open>total_profit\<close>, the revenue minus that sum.
\<close>

theorem metrics_fields:
  fixes fs username
  defines "result \<equiv> calculate_metrics fs username"
  assumes "get_user_data fs username ''sales'' \<noteq> []"
  shows "map_option (map fst) result =
           Some [''total_revenue'', ''total_profit'', ''profit_margin'', ''inventory_value'',
                 ''pending_orders'', ''total_debts'', ''sales_df'', ''total_sales_count'']
       \<and> metrics_field result ''total_cost'' = None
       \<and> metrics_field result ''total_profit''
           = Some (Number (revenue (user_sales fs username) - cost_sum (user_sales fs username)))"
  unfolding result_def calculate_metrics_nonempty [OF assms(2)]
  by (simp add: metrics_field_def)

text \<open>\<open>asha\<close>: revenue 94, costs 64, profit 30.\<close>

theorem metrics_fields_witness:
  "get_user_data example_fs ''asha'' ''sales'' \<noteq> []
   \<and> revenue (user_sales example_fs ''asha'') = 94
   \<and> cost_sum (user_sales example_fs ''asha'') = 64
   \<and> metrics_field (calculate_metrics example_fs ''asha'') ''total_cost'' = None
   \<and> metrics_field (calculate_metrics example_fs ''asha'') ''total_profit'' = Some (Number 30)"
proof -
  have a: "revenue (user_sales example_fs ''asha'') = 94" by code_simp
  have b: "cost_sum (user_sales example_fs ''asha'') = 64" by code_simp
  from metrics_fields [OF asha_has_sales] asha_has_sales show ?thesis
    unfolding a b by simp
qed

text \<open>
  Claim C3 as stated fails: \<open>bela\<close> has sales whose costs add up to 135, and the
  result has no field \<^verbatim>\<open>total_cost\<close>.
\<close>

theorem total_cost_field_counterexample:
  "get_user_data example_fs ''bela'' ''sales'' \<noteq> []
   \<and> cost_sum (user_sales example_fs ''bela'') = 135
   \<and> metrics_field (calculate_metrics example_fs ''bela'') ''total_cost'' = None"
proof -
  have "cost_sum (user_sales example_fs ''bela'') = 135" by code_simp
  moreover have "metrics_field (calculate_metrics example_fs ''bela'') ''total_cost'' = None"
    by code_simp
  ultimately show ?thesis using bela_has_sales by simp
qed




lemma frame_of_metrics:
  assumes "get_user_data fs u ''sales'' \<noteq> []"
  shows "\<exists>m. calculate_metrics fs u = Some m \<and> m \<noteq> [] \<and> frame_item m ''sales_df'' = Inr (user_sales fs u)"
  by (simp add: calculate_metrics_nonempty [OF assms] frame_item_def)

lemma predict_monthly_revenue_eq:
  "predict_monthly_revenue fs u =
     Inr (if 7 \<le> length (user_sales fs u) then recent_mean (user_sales fs u) * 30 else 0)"
proof (cases "get_user_data fs u ''sales'' = []")
  case True
  then show ?thesis
    by (simp add: predict_monthly_revenue_def calculate_metrics_empty sale_rows_def)
next
  case False
  from frame_of_metrics [OF False] show ?thesis
    by (auto simp add: predict_monthly_revenue_def bind_def)
qed

text \<open>
  Claim C4, as the code has it. \<^verbatim>\<open>predict_monthly_revenue\<close> never raises; with at least
  7 sales it returns 30 times the mean \<^verbatim>\<open>total_amount\<close> of the last 7 sales in stored
  order, and with fewer (or none) it returns 0. The last 7 in stored order are the 7 most
  recent by date whenever the list is stored in date order.
\<close>

theorem predict_monthly_revenue_stored_order:
  fixes fs username
  defines "sales_df \<equiv> user_sales fs username"
  shows "predict_monthly_revenue fs username =
           Inr (if 7 \<le> length sales_df then mean (map s_total_amount (tail 7 sales_df)) * 30 else 0)
       \<and> (sorted (map s_date sales_df) \<longrightarrow> tail 7 sales_df = spec_most_recent_by_date 7 sales_df)"
  unfolding sales_df_def
  by (simp add: predict_monthly_revenue_eq spec_most_recent_by_date_def sort_key_id_if_sorted)

text \<open>\<open>asha\<close>'s sales are stored in date order; the projection is 30 times 12.\<close>

theorem predict_monthly_revenue_stored_order_witness:
  "sorted (map s_date (user_sales example_fs ''asha''))
   \<and> length (user_sales example_fs ''asha'') = 8
   \<and> predict_monthly_revenue example_fs ''asha'' = Inr 360
   \<and> mean (map s_total_amount (spec_most_recent_by_date 7 (user_sales example_fs ''asha''))) * 30 = 360"
proof -
  have a: "sorted (map s_date (user_sales example_fs ''asha''))" by code_simp
  have b: "length (user_sales example_fs ''asha'') = 8" by code_simp
  have c: "recent_mean (user_sales example_fs ''asha'') = 12" by code_simp
  from predict_monthly_revenue_stored_order [of example_fs "''asha''"] a b c show ?thesis
    by simp
qed

text \<open>
  Claim C4 as stated fails when a sale is entered with an earlier date: \<open>bela\<close>'s eighth
  sale (amount 80) is dated before the other seven (amount 10 each, on distinct days).
  The code averages the last seven stored and returns 600; the seven most recent by date
  are the first seven stored, whose projection is 300.
\<close>

theorem back_dated_sale_counterexample:
  "length (user_sales example_fs ''bela'') = 8
   \<and> distinct (map s_date (user_sales example_fs ''bela''))
   \<and> predict_monthly_revenue example_fs ''bela'' = Inr 600
   \<and> mean (map s_total_amount (spec_most_recent_by_date 7 (user_sales example_fs ''bela''))) * 30 = 300"
proof -
  have "length (user_sales example_fs ''bela'') = 8" by code_simp
  moreover have "distinct (map s_date (user_sales example_fs ''bela''))" by code_simp
  moreover have "predict_monthly_revenue example_fs ''bela'' = Inr 600" by code_simp
  moreover have "mean (map s_total_amount (spec_most_recent_by_date 7 (user_sales example_fs ''bela''))) * 30 = 300"
    by code_simp
  ultimately show ?thesis by simp
qed


lemma filter_title_labels:
  "length [i \<leftarrow> ins. P (title i)] = length [l \<leftarrow> labels ins. P (snd l)]"
  by (induction ins) (simp_all add: labels_def)

lemma filter_title_none:
  "T \<notin> snd ` set (labels ins) \<Longrightarrow> [i \<leftarrow> ins. title i = T] = []"
  by (induction ins) (auto simp add: labels_def)

lemma filter_title_all:
  "snd ` set (labels ins) \<subseteq> {T} \<Longrightarrow> [i \<leftarrow> ins. title i = T] = ins"
  by (induction ins) (auto simp add: labels_def)

lemma str_int_minus_3: "3 < k \<Longrightarrow> str_int (int k - 3) = str_nat (k - 3)"
proof -
  assume "3 < k"
  then have "nat (int k - 3) = k - 3" "\<not> int k - 3 < 0" by auto
  then show ?thesis unfolding str_int_def by (simp del: str_nat.simps)
qed

lemma insight_inventory_eq:
  fixes inventory
  defines "low_stock \<equiv> [item \<leftarrow> item_rows inventory. i_quantity item < 10]"
  shows "insight_inventory inventory =
     (if 0 < length low_stock then
        [\<lparr>type = ''warning'', title = LOW_STOCK_ALERT,
          message =
            [Text (str_nat (length low_stock)), Text '' item(s) running low. Restock: '',
             Text (join '', '' (map i_name (take 3 low_stock))),
             Text (if 3 < length low_stock
                   then '' and '' @ str_nat (length low_stock - 3) @ '' more'' else [])]\<rparr>]
      else [])"
  unfolding low_stock_def insight_inventory_def LOW_STOCK_THRESHOLD_def concat_map_if_id Let_def
  by (simp add: str_int_minus_3 concat_map_if del: str_nat.simps)

text \<open>
  Claim C2, as the code has it. Let \<open>k\<close> be the number of inventory items whose quantity
  is strictly below the configured threshold 10. For a non-empty sales list, the insights
  contain a low-stock warning exactly when \<open>k > 0\<close>; its message names the first
  \<open>min k 3\<close> of those items and ends with \<open>and k-3 more\<close> exactly when \<open>k > 3\<close>.
  When every item's reorder level is 10, \<open>k\<close> is the number of items below their own
  reorder level, as the inventory page counts them.
\<close>

theorem low_stock_insight:
  fixes fs username
  defines "inventory \<equiv> item_rows (get_user_data fs username ''inventory'')"
  defines "low_stock \<equiv> [item \<leftarrow> inventory. i_quantity item < 10]"
  defines "k \<equiv> length low_stock"
  defines "names \<equiv> map i_name (take 3 low_stock)"
  assumes "get_user_data fs username ''sales'' \<noteq> []"
  shows "\<exists>ins.
      generate_insights fs username = Inr ins
    \<and> length names = min k 3
    \<and> [i \<leftarrow> ins. title i = LOW_STOCK_ALERT] =
        (if 0 < k then
           [\<lparr>type = ''warning'', title = LOW_STOCK_ALERT,
             message =
               [Text (str_nat k), Text '' item(s) running low. Restock: '',
                Text (join '', '' names),
                Text (if 3 < k then '' and '' @ str_nat (k - 3) @ '' more'' else [])]\<rparr>]
         else [])
    \<and> ((\<forall>item \<in> set inventory. i_reorder_level item = 10)
         \<longrightarrow> low_stock_count (get_user_data fs username ''inventory'') = k)"
proof -
  let ?ins = "insight_best_selling (user_sales fs username)
      @ insight_profit_margin (margin (user_sales fs username))
      @ insight_sales_trends (user_sales fs username)
      @ insight_debt_management (pending_debts fs username) (revenue (user_sales fs username))
      @ insight_inventory (get_user_data fs username ''inventory'')
      @ insight_product_diversity (user_sales fs username)"
  have gen: "generate_insights fs username = Inr ?ins"
    by (rule generate_insights_nonempty [OF assms(5)])
  have others: "[i \<leftarrow> insight_best_selling (user_sales fs username). title i = LOW_STOCK_ALERT] = []"
    "[i \<leftarrow> insight_profit_margin (margin (user_sales fs username)). title i = LOW_STOCK_ALERT] = []"
    "[i \<leftarrow> insight_sales_trends (user_sales fs username). title i = LOW_STOCK_ALERT] = []"
    "[i \<leftarrow> insight_debt_management (pending_debts fs username) (revenue (user_sales fs username)).
        title i = LOW_STOCK_ALERT] = []"
    "[i \<leftarrow> insight_product_diversity (user_sales fs username). title i = LOW_STOCK_ALERT] = []"
    by (auto intro!: filter_title_none simp add: labels_blocks title_defs split: if_splits)
  have own: "[i \<leftarrow> insight_inventory (get_user_data fs username ''inventory'').
        title i = LOW_STOCK_ALERT] = insight_inventory (get_user_data fs username ''inventory'')"
    by (rule filter_title_all) (auto simp add: labels_blocks split: if_splits)
  have msg: "[i \<leftarrow> ?ins. title i = LOW_STOCK_ALERT] =
        (if 0 < k then
           [\<lparr>type = ''warning'', title = LOW_STOCK_ALERT,
             message =
               [Text (str_nat k), Text '' item(s) running low. Restock: '',
                Text (join '', '' names),
                Text (if 3 < k then '' and '' @ str_nat (k - 3) @ '' more'' else [])]\<rparr>]
         else [])"
    unfolding filter_append others own
    unfolding insight_inventory_eq k_def names_def low_stock_def inventory_def
    by simp
  have len: "length names = min k 3"
    by (simp add: names_def k_def min.commute)
  have same: "low_stock_count (get_user_data fs username ''inventory'') = k"
    if "\<forall>item \<in> set inventory. i_reorder_level item = 10"
  proof -
    from that have "[item \<leftarrow> inventory. i_quantity item < i_reorder_level item] = low_stock"
      unfolding low_stock_def by (intro filter_cong) auto
    then show ?thesis
      by (simp add: low_stock_count_def concat_map_if_id k_def inventory_def)
  qed
  from gen msg len same show ?thesis by blast
qed


text \<open>
  \<open>bela\<close>'s inventory: five items, all with reorder level 10, four of them below it.
\<close>

theorem low_stock_insight_witness:
  "get_user_data example_fs ''bela'' ''sales'' \<noteq> []
   \<and> list_all (\<lambda>item. i_reorder_level item = 10)
        (item_rows (get_user_data example_fs ''bela'' ''inventory''))
   \<and> length (item_rows (get_user_data example_fs ''bela'' ''inventory'')) = 5
   \<and> low_stock_count (get_user_data example_fs ''bela'' ''inventory'') = 4
   \<and> (\<exists>ins. generate_insights example_fs ''bela'' = Inr ins
        \<and> map message [i \<leftarrow> ins. title i = LOW_STOCK_ALERT] =
            [[Text ''4'', Text '' item(s) running low. Restock: '',
              Text ''rice, oil, soap'', Text '' and 1 more'']])"
proof -
  have a: "list_all (\<lambda>item. i_reorder_level item = 10)
        (item_rows (get_user_data example_fs ''bela'' ''inventory''))"
    by code_simp
  have b: "length (item_rows (get_user_data example_fs ''bela'' ''inventory'')) = 5"
    by code_simp
  have k: "length [item \<leftarrow> item_rows (get_user_data example_fs ''bela'' ''inventory'').
             i_quantity item < 10] = 4"
    by code_simp
  have n: "map i_name (take 3 [item \<leftarrow> item_rows (get_user_data example_fs ''bela'' ''inventory'').
             i_quantity item < 10]) = [''rice'', ''oil'', ''soap'']"
    by code_simp
  have d: "str_nat 4 = ''4''" "str_nat (4 - 3) = ''1''"
    by (simp_all add: digit_char_def)
  from a have a': "\<forall>item \<in> set (item_rows (get_user_data example_fs ''bela'' ''inventory'')).
      i_reorder_level item = 10"
    by (simp add: list_all_iff)
  from low_stock_insight [OF bela_has_sales] a' show ?thesis
    unfolding k n d using bela_has_sales a b by auto
qed

text \<open>
  Claim C2 as stated fails twice. \<open>asha\<close> has sales and one item with quantity 15 and
  reorder level 20, so one item is below its own reorder level, and there is no low-stock
  warning. \<open>chand\<close> has one item below its reorder level and no sales, and gets no
  insight at all.
\<close>

theorem reorder_level_counterexample:
  "get_user_data example_fs ''asha'' ''sales'' \<noteq> []
   \<and> low_stock_count (get_user_data example_fs ''asha'' ''inventory'') = 1
   \<and> map_sum id labels (generate_insights example_fs ''asha'')
       = Inr [(''success'', TOP_PERFORMER), (''info'', PRODUCT_DIVERSITY)]
   \<and> (''warning'', LOW_STOCK_ALERT) \<notin> set [(''success'', TOP_PERFORMER), (''info'', PRODUCT_DIVERSITY)]
   \<and> low_stock_count (get_user_data example_fs ''chand'' ''inventory'') = 1
   \<and> generate_insights example_fs ''chand'' = Inr []"
proof -
  have "low_stock_count (get_user_data example_fs ''asha'' ''inventory'') = 1" by code_simp
  moreover have "(''warning'', LOW_STOCK_ALERT)
      \<notin> set [(''success'', TOP_PERFORMER), (''info'', PRODUCT_DIVERSITY)]"
    by (simp add: title_defs)
  moreover have "low_stock_count (get_user_data example_fs ''chand'' ''inventory'') = 1"
    by code_simp
  moreover have "generate_insights example_fs ''chand'' = Inr []" by code_simp
  ultimately show ?thesis using asha_has_sales asha_labels by simp
qed

lemma length_labels: "length (labels ins) = length ins"
  by (simp add: labels_def)

lemma length_labels_blocks:
  "length (labels (insight_best_selling df)) \<le> 1"
  "length (labels (insight_profit_margin pm)) \<le> 1"
  "length (labels (insight_sales_trends df)) \<le> 1"
  "length (labels (insight_debt_management td tr)) \<le> 1"
  "length (labels (insight_inventory rows)) \<le> 1"
  "length (labels (insight_product_diversity df)) \<le> 1"
  by (simp_all add: labels_blocks)

text \<open>
  Claim C10. For every store and user, \<^verbatim>\<open>generate_insights\<close> returns (it does not raise)
  a list of at most 6 insights, with at most one from each rule: at most one titled Top
  Performer, one with a margin title, one with a trend title, one High Debt Alert, one Low
  Stock Alert, one Product Diversity, and no other title. Every \<^verbatim>\<open>type\<close> is one of
  \<open>success\<close>, \<open>warning\<close>, \<open>error\<close>, \<open>info\<close>.
\<close>

theorem insights_bounded:
  "\<exists>ins.
      generate_insights fs username = Inr ins
    \<and> length ins \<le> 6
    \<and> length [i \<leftarrow> ins. title i = TOP_PERFORMER] \<le> 1
    \<and> length [i \<leftarrow> ins. title i = LOW_PROFIT_MARGIN \<or> title i = EXCELLENT_MARGINS] \<le> 1
    \<and> length [i \<leftarrow> ins. title i = GROWTH_TREND \<or> title i = DECLINING_SALES] \<le> 1
    \<and> length [i \<leftarrow> ins. title i = HIGH_DEBT_ALERT] \<le> 1
    \<and> length [i \<leftarrow> ins. title i = LOW_STOCK_ALERT] \<le> 1
    \<and> length [i \<leftarrow> ins. title i = PRODUCT_DIVERSITY] \<le> 1
    \<and> set (map title ins) \<subseteq>
        {TOP_PERFORMER, LOW_PROFIT_MARGIN, EXCELLENT_MARGINS, GROWTH_TREND, DECLINING_SALES,
         HIGH_DEBT_ALERT, LOW_STOCK_ALERT, PRODUCT_DIVERSITY}
    \<and> set (map type ins) \<subseteq> {''success'', ''warning'', ''error'', ''info''}"
proof (cases "get_user_data fs username ''sales'' = []")
  case True
  then show ?thesis by (simp add: generate_insights_empty)
next
  case False
  then show ?thesis
  proof (cases rule: labelled_insights)
    case (insights ins)
    have "length (labels ins) \<le> 6"
      unfolding insights(2) length_append
      using length_labels_blocks(1) [of "user_sales fs username"]
        length_labels_blocks(2) [of "margin (user_sales fs username)"]
        length_labels_blocks(3) [of "user_sales fs username"]
        length_labels_blocks(4) [of "pending_debts fs username" "revenue (user_sales fs username)"]
        length_labels_blocks(5) [of "get_user_data fs username ''inventory''"]
        length_labels_blocks(6) [of "user_sales fs username"]
      by linarith
    then have n: "length ins \<le> 6" by (simp add: length_labels)
    have r1: "length [i \<leftarrow> ins. title i = TOP_PERFORMER] \<le> 1"
      unfolding filter_title_labels [of "\<lambda>t. t = TOP_PERFORMER"] insights(2) labels_blocks
      by (simp add: filter_if_list title_defs)
    have r2: "length [i \<leftarrow> ins. title i = LOW_PROFIT_MARGIN \<or> title i = EXCELLENT_MARGINS] \<le> 1"
      unfolding filter_title_labels [of "\<lambda>t. t = LOW_PROFIT_MARGIN \<or> t = EXCELLENT_MARGINS"]
        insights(2) labels_blocks
      by (simp add: filter_if_list title_defs)
    have r3: "length [i \<leftarrow> ins. title i = GROWTH_TREND \<or> title i = DECLINING_SALES] \<le> 1"
      unfolding filter_title_labels [of "\<lambda>t. t = GROWTH_TREND \<or> t = DECLINING_SALES"]
        insights(2) labels_blocks
      by (simp add: filter_if_list title_defs)
    have r4: "length [i \<leftarrow> ins. title i = HIGH_DEBT_ALERT] \<le> 1"
      unfolding filter_title_labels [of "\<lambda>t. t = HIGH_DEBT_ALERT"] insights(2) labels_blocks
      by (simp add: filter_if_list title_defs)
    have r5: "length [i \<leftarrow> ins. title i = LOW_STOCK_ALERT] \<le> 1"
      unfolding filter_title_labels [of "\<lambda>t. t = LOW_STOCK_ALERT"] insights(2) labels_blocks
      by (simp add: filter_if_list title_defs)
    have r6: "length [i \<leftarrow> ins. title i = PRODUCT_DIVERSITY] \<le> 1"
      unfolding filter_title_labels [of "\<lambda>t. t = PRODUCT_DIVERSITY"] insights(2) labels_blocks
      by (simp add: filter_if_list title_defs)
    have "map title ins = map snd (labels ins)" "map type ins = map fst (labels ins)"
      by (simp_all add: labels_def comp_def)
    then have t: "set (map title ins) \<subseteq>
        {TOP_PERFORMER, LOW_PROFIT_MARGIN, EXCELLENT_MARGINS, GROWTH_TREND, DECLINING_SALES,
         HIGH_DEBT_ALERT, LOW_STOCK_ALERT, PRODUCT_DIVERSITY}"
      and s: "set (map type ins) \<subseteq> {''success'', ''warning'', ''error'', ''info''}"
      unfolding insights(2) labels_blocks
      by (auto split: if_splits)
    from insights(1) n r1 r2 r3 r4 r5 r6 t s show ?thesis by blast
  qed
qed

text \<open>For \<open>bela\<close> all six rules fire.\<close>

theorem insights_bounded_witness:
  "\<exists>ins. generate_insights example_fs ''bela'' = Inr ins
     \<and> length ins = 6
     \<and> map type ins = [''success'', ''warning'', ''success'', ''error'', ''warning'', ''info'']
     \<and> set (map type ins) \<subseteq> {''success'', ''warning'', ''error'', ''info''}"
proof -
  from insights_bounded [of example_fs "''bela''"] obtain ins where
    ins: "generate_insights example_fs ''bela'' = Inr ins"
    and ty: "set (map type ins) \<subseteq> {''success'', ''warning'', ''error'', ''info''}"
    by blast
  from ins bela_labels have "labels ins = [(''success'', TOP_PERFORMER), (''warning'', LOW_PROFIT_MARGIN),
            (''success'', GROWTH_TREND), (''error'', HIGH_DEBT_ALERT),
            (''warning'', LOW_STOCK_ALERT), (''info'', PRODUCT_DIVERSITY)]"
    by simp
  then have "map fst (labels ins) = [''success'', ''warning'', ''success'', ''error'', ''warning'', ''info'']"
    "length (labels ins) = 6"
    by simp_all
  then have "map type ins = [''success'', ''warning'', ''success'', ''error'', ''warning'', ''info'']"
    "length ins = 6"
    by (simp_all add: labels_def comp_def)
  with ins ty show ?thesis by (intro exI [of _ ins]) simp
qed

end
